theory Spec2Isabelle
  imports Main
begin

section \<open>The student evaluation service (app/main.py)\<close>

text \<open>
  The service keeps three JSON files, each holding one array of flat objects. An
  endpoint reads the files it needs, checks the request, appends one object and writes
  the array back. The files are modelled as one record of three lists that every
  endpoint takes and returns; an \<^verbatim>\<open>HTTPException\<close> raised by an endpoint is the
  \<open>Inl\<close> branch of its result, and the files it returns are then the files it was given,
  since every \<^verbatim>\<open>raise\<close> of the source comes before the \<^verbatim>\<open>write_json\<close> call.
\<close>

subsection \<open>Request models\<close>

text \<open>
  The pydantic models, after validation. Field names carry a prefix where two models
  share a name: \<open>uc_name\<close> is \<^verbatim>\<open>UserCreate.name\<close>, \<open>lc_name\<close> is
  \<^verbatim>\<open>LecturerCreate.name\<close>. \<^verbatim>\<open>UserCreate.email\<close> is declared
  \<^verbatim>\<open>EmailStr\<close>: \<open>uc_email\<close> is the address that the validation of the
  submitted string returned, and a submitted string that fails the validation never
  becomes a \<open>UserCreate\<close> (see \<open>post_register\<close> below).
\<close>

record UserCreate =
  uc_name :: string
  uc_email :: string

record LecturerCreate =
  lc_name :: string
  lc_department :: string

record EvaluationCreate =
  user_index :: string
  lecturer_id :: string
  rating :: int
  comments :: "string option"

text \<open>
  \<^verbatim>\<open>comments: str | None = None\<close>: a request body without the field is bound to
  the default.
\<close>

definition EvaluationCreate_no_comments :: "string \<Rightarrow> string \<Rightarrow> int \<Rightarrow> EvaluationCreate" where
  "EvaluationCreate_no_comments ui lid r =
     \<lparr>user_index = ui, lecturer_id = lid, rating = r, comments = None\<rparr>"

subsection \<open>Stored objects and the three files\<close>

text \<open>
  The dictionaries that the endpoints append: \<^verbatim>\<open>{"index", "name", "email"}\<close>,
  \<^verbatim>\<open>{"id", "name", "department"}\<close> and
  \<^verbatim>\<open>{"user_index", "lecturer_id", "rating", "comments"}\<close>. A \<^verbatim>\<open>None\<close> value
  (JSON \<^verbatim>\<open>null\<close>) is \<open>None\<close>.
\<close>

record user =
  u_index :: string
  u_name :: string
  u_email :: string

record lecturer =
  l_id :: string
  l_name :: string
  l_department :: string

record evaluation =
  e_user_index :: string
  e_lecturer_id :: string
  e_rating :: int
  e_comments :: "string option"

record files =
  USERS_FILE :: "user list"
  LECTURERS_FILE :: "lecturer list"
  EVALUATIONS_FILE :: "evaluation list"

text \<open>\<^verbatim>\<open>ensure_files_exist\<close> writes \<^verbatim>\<open>[]\<close> to every file that is missing.\<close>

definition ensure_files_exist :: files where
  "ensure_files_exist = \<lparr>USERS_FILE = [], LECTURERS_FILE = [], EVALUATIONS_FILE = []\<rparr>"

datatype http_error = HTTPException (status_code: nat) (detail: string)

text \<open>The response dictionaries of the three POST endpoints map strings to strings.\<close>

type_synonym response = "(string \<times> string) list"

subsection \<open>Identifier generation\<close>

text \<open>
  \<^verbatim>\<open>f"{n:04d}"\<close> for a non-negative \<open>n\<close>: the decimal digits of \<open>n\<close>, padded on the
  left with zeros to four characters and never truncated. The argument is always
  \<^verbatim>\<open>len(...) + 1\<close>, so it is a natural number.
\<close>

definition digit_char :: "nat \<Rightarrow> char" where
  "digit_char d = ''0123456789'' ! d"

fun str_nat :: "nat \<Rightarrow> string" where
  "str_nat n =
     (if n < 10 then [digit_char n] else str_nat (n div 10) @ [digit_char (n mod 10)])"

declare str_nat.simps [simp del]

definition fmt_04d :: "nat \<Rightarrow> string" where
  "fmt_04d n = replicate (4 - length (str_nat n)) CHR ''0'' @ str_nat n"

definition generate_user_index :: "files \<Rightarrow> string" where
  "generate_user_index fs = (let users = USERS_FILE fs in fmt_04d (length users + 1))"

definition generate_lecturer_id :: "files \<Rightarrow> string" where
  "generate_lecturer_id fs =
     (let lecturers = LECTURERS_FILE fs in CHR ''L'' # fmt_04d (length lecturers + 1))"

subsection \<open>Endpoints\<close>

definition register_user :: "UserCreate \<Rightarrow> files \<Rightarrow> (http_error + response) \<times> files" where
  "register_user usr fs =
     (let users = USERS_FILE fs in
      if list_ex (\<lambda>u. u_email u = uc_email usr) users
      then (Inl (HTTPException 400 ''User already exists''), fs)
      else
        let user_index = generate_user_index fs;
            users' = users @ [\<lparr>u_index = user_index, u_name = uc_name usr, u_email = uc_email usr\<rparr>]
        in (Inr [(''index'', user_index), (''message'', ''User registered successfully'')],
            fs\<lparr>USERS_FILE := users'\<rparr>))"

definition add_lecturer :: "LecturerCreate \<Rightarrow> files \<Rightarrow> (http_error + response) \<times> files" where
  "add_lecturer lec fs =
     (let lecturers = LECTURERS_FILE fs;
          lecturer_id' = generate_lecturer_id fs;
          lecturers' = lecturers @
            [\<lparr>l_id = lecturer_id', l_name = lc_name lec, l_department = lc_department lec\<rparr>]
      in (Inr [(''lecturer_id'', lecturer_id'), (''message'', ''Lecturer added successfully'')],
          fs\<lparr>LECTURERS_FILE := lecturers'\<rparr>))"

definition list_lecturers :: "files \<Rightarrow> (http_error + lecturer list) \<times> files" where
  "list_lecturers fs = (let lecturers = LECTURERS_FILE fs in (Inr lecturers, fs))"

definition evaluate_lecturer ::
  "EvaluationCreate \<Rightarrow> files \<Rightarrow> (http_error + response) \<times> files" where
  "evaluate_lecturer ev fs =
     (let users = USERS_FILE fs;
          lecturers = LECTURERS_FILE fs;
          evaluations = EVALUATIONS_FILE fs
      in
      if \<not> list_ex (\<lambda>u. u_index u = user_index ev) users
      then (Inl (HTTPException 404 ''User not found''), fs)
      else if \<not> list_ex (\<lambda>l. l_id l = lecturer_id ev) lecturers
      then (Inl (HTTPException 404 ''Lecturer not found''), fs)
      else if rating ev < 1 \<or> rating ev > 5
      then (Inl (HTTPException 400 ''Rating must be between 1 and 5''), fs)
      else
        let evaluations' = evaluations @
              [\<lparr>e_user_index = user_index ev, e_lecturer_id = lecturer_id ev,
                e_rating = rating ev, e_comments = comments ev\<rparr>]
        in (Inr [(''message'', ''Evaluation submitted successfully'')],
            fs\<lparr>EVALUATIONS_FILE := evaluations'\<rparr>))"

definition get_evaluations :: "files \<Rightarrow> (http_error + evaluation list) \<times> files" where
  "get_evaluations fs = (let evaluations = EVALUATIONS_FILE fs in (Inr evaluations, fs))"

subsection \<open>The body of POST /register\<close>

text \<open>
  Modelled from the spec: \<^verbatim>\<open>EmailStr\<close>, the type of \<^verbatim>\<open>UserCreate.email\<close>,
  belongs to pydantic and is not part of the repository. The specification asks that
  the email be "validated against a standard email-address grammar", a failure being
  \<^verbatim>\<open>InvalidInput\<close>. The grammar modelled is the plain ASCII address: one
  \<^verbatim>\<open>@\<close>; before it a dot-atom of at most 64 characters; after it a host name of
  at least two labels of letters, digits and inner hyphens; at most 254 characters in
  all. The value returned is the address with its domain in lower case, the local part
  as submitted. Display names, surrounding blanks, quoted local parts and
  internationalised addresses are outside the model, which answers \<open>None\<close> for them.
\<close>

definition is_alnum :: "char \<Rightarrow> bool" where
  "is_alnum c \<longleftrightarrow>
     (let n = (of_char c :: nat)
      in (48 \<le> n \<and> n \<le> 57) \<or> (65 \<le> n \<and> n \<le> 90) \<or> (97 \<le> n \<and> n \<le> 122))"

definition lower_char :: "char \<Rightarrow> char" where
  "lower_char c =
     (let n = (of_char c :: nat) in if 65 \<le> n \<and> n \<le> 90 then char_of (n + 32) else c)"

text \<open>The characters of an atom besides letters and digits, by their ASCII codes.\<close>

definition atext :: "char \<Rightarrow> bool" where
  "atext c \<longleftrightarrow>
     is_alnum c \<or>
     (of_char c :: nat) \<in>
       set [33, 35, 36, 37, 38, 39, 42, 43, 45, 47, 61, 63, 94, 95, 96, 123, 124, 125, 126]"

fun split_on :: "char \<Rightarrow> string \<Rightarrow> string list" where
  "split_on sep [] = [[]]"
| "split_on sep (c # cs) =
     (if c = sep then [] # split_on sep cs
      else (case split_on sep cs of [] \<Rightarrow> [[c]] | w # ws \<Rightarrow> (c # w) # ws))"

definition dot_atom :: "string \<Rightarrow> bool" where
  "dot_atom s \<longleftrightarrow> list_all (\<lambda>w. w \<noteq> [] \<and> list_all atext w) (split_on CHR ''.'' s)"

definition hostname :: "string \<Rightarrow> bool" where
  "hostname s \<longleftrightarrow>
     (let labels = split_on CHR ''.'' s
      in 2 \<le> length labels \<and>
         list_all (\<lambda>w. w \<noteq> [] \<and> list_all (\<lambda>c. is_alnum c \<or> c = CHR ''-'') w \<and>
                       hd w \<noteq> CHR ''-'' \<and> last w \<noteq> CHR ''-'') labels)"

text \<open>
  Modelled from the spec: the validation that \<^verbatim>\<open>EmailStr\<close> (pydantic, not in the
  repository) applies to the submitted email, as the grammar described above. \<open>None\<close>
  is a validation failure, \<open>Some e\<close> the address handed to \<^verbatim>\<open>register_user\<close>.
\<close>

definition EmailStr :: "string \<Rightarrow> string option" where
  "EmailStr s =
     (case split_on CHR ''@'' s of
        [local_part, domain] \<Rightarrow>
          if dot_atom local_part \<and> length local_part \<le> 64 \<and>
             hostname domain \<and> length s \<le> 254
          then Some (local_part @ CHR ''@'' # map lower_char domain)
          else None
      | _ \<Rightarrow> None)"

text \<open>
  What the framework does with the body of \<^verbatim>\<open>POST /register\<close> (lines 34-36 and
  67-68): the submitted email goes through the validation of the field's type,
  \<open>email_str\<close>; when that fails the client is answered 422 and
  \<^verbatim>\<open>register_user\<close> is not called; otherwise \<^verbatim>\<open>register_user\<close> runs on the
  \<open>UserCreate\<close> that holds the returned address. The validation is a parameter, so
  that what is proved of \<open>post_register\<close> holds of every validation, \<open>EmailStr\<close>
  above being the one used on concrete addresses.
\<close>

datatype api_error = RequestValidationError | Raised http_error

definition post_register ::
  "(string \<Rightarrow> string option) \<Rightarrow> string \<Rightarrow> string \<Rightarrow> files \<Rightarrow> (api_error + response) \<times> files" where
  "post_register email_str name email fs =
     (case email_str email of
        None \<Rightarrow> (Inl RequestValidationError, fs)
      | Some e \<Rightarrow>
          (case register_user \<lparr>uc_name = name, uc_email = e\<rparr> fs of
             (Inl err, fs') \<Rightarrow> (Inl (Raised err), fs')
           | (Inr resp, fs') \<Rightarrow> (Inr resp, fs')))"

subsection \<open>Sequences of requests\<close>

text \<open>
  A client's requests, one after the other. A request that raises leaves the files as
  they were; \<open>successful\<close> keeps the requests that returned a response.
\<close>

datatype request =
  RegisterUser UserCreate
| AddLecturer LecturerCreate
| ListLecturers
| SubmitEvaluation EvaluationCreate
| ListEvaluations

fun ok :: "request \<Rightarrow> files \<Rightarrow> bool" where
  "ok (RegisterUser usr) fs = (\<not> isl (fst (register_user usr fs)))"
| "ok (AddLecturer lec) fs = (\<not> isl (fst (add_lecturer lec fs)))"
| "ok ListLecturers fs = (\<not> isl (fst (list_lecturers fs)))"
| "ok (SubmitEvaluation ev) fs = (\<not> isl (fst (evaluate_lecturer ev fs)))"
| "ok ListEvaluations fs = (\<not> isl (fst (get_evaluations fs)))"

fun handle :: "request \<Rightarrow> files \<Rightarrow> files" where
  "handle (RegisterUser usr) fs = snd (register_user usr fs)"
| "handle (AddLecturer lec) fs = snd (add_lecturer lec fs)"
| "handle ListLecturers fs = snd (list_lecturers fs)"
| "handle (SubmitEvaluation ev) fs = snd (evaluate_lecturer ev fs)"
| "handle ListEvaluations fs = snd (get_evaluations fs)"

fun run :: "request list \<Rightarrow> files \<Rightarrow> files" where
  "run [] fs = fs"
| "run (r # rs) fs = run rs (handle r fs)"

fun successful :: "request list \<Rightarrow> files \<Rightarrow> request list" where
  "successful [] fs = []"
| "successful (r # rs) fs =
     (if ok r fs then r # successful rs (handle r fs) else successful rs (handle r fs))"

fun is_RegisterUser :: "request \<Rightarrow> bool" where
  "is_RegisterUser (RegisterUser usr) = True"
| "is_RegisterUser r = False"

fun is_AddLecturer :: "request \<Rightarrow> bool" where
  "is_AddLecturer (AddLecturer lec) = True"
| "is_AddLecturer r = False"

text \<open>
  The payloads of the registrations and of the lecturer additions in a list of requests,
  in order, and the object that is stored for the \<open>k\<close>-th of them.
\<close>

fun registrations :: "request list \<Rightarrow> UserCreate list" where
  "registrations [] = []"
| "registrations (RegisterUser usr # rs) = usr # registrations rs"
| "registrations (r # rs) = registrations rs"

fun additions :: "request list \<Rightarrow> LecturerCreate list" where
  "additions [] = []"
| "additions (AddLecturer lec # rs) = lec # additions rs"
| "additions (r # rs) = additions rs"

definition stored_user :: "nat \<times> UserCreate \<Rightarrow> user" where
  "stored_user p = \<lparr>u_index = fmt_04d (fst p), u_name = uc_name (snd p), u_email = uc_email (snd p)\<rparr>"

definition stored_lecturer :: "nat \<times> LecturerCreate \<Rightarrow> lecturer" where
  "stored_lecturer p =
     \<lparr>l_id = CHR ''L'' # fmt_04d (fst p), l_name = lc_name (snd p),
      l_department = lc_department (snd p)\<rparr>"

text \<open>The data invariants of the three files.\<close>

definition invariants :: "files \<Rightarrow> bool" where
  "invariants fs \<longleftrightarrow>
     distinct (map u_index (USERS_FILE fs)) \<and>
     distinct (map u_email (USERS_FILE fs)) \<and>
     distinct (map l_id (LECTURERS_FILE fs)) \<and>
     list_all (\<lambda>e. list_ex (\<lambda>u. u_index u = e_user_index e) (USERS_FILE fs) \<and>
                   list_ex (\<lambda>l. l_id l = e_lecturer_id e) (LECTURERS_FILE fs) \<and>
                   1 \<le> e_rating e \<and> e_rating e \<le> 5)
       (EVALUATIONS_FILE fs)"

text \<open>Identifiers follow the length of the file.\<close>

definition users_sequential :: "files \<Rightarrow> bool" where
  "users_sequential fs \<longleftrightarrow>
     map u_index (USERS_FILE fs) = map fmt_04d [1..<Suc (length (USERS_FILE fs))]"

definition lecturers_sequential :: "files \<Rightarrow> bool" where
  "lecturers_sequential fs \<longleftrightarrow>
     map l_id (LECTURERS_FILE fs) =
       map (\<lambda>k. CHR ''L'' # fmt_04d k) [1..<Suc (length (LECTURERS_FILE fs))]"

subsection \<open>A scenario\<close>

text \<open>Two students and one lecturer, registered on a fresh installation.\<close>

definition alice :: UserCreate where
  "alice = \<lparr>uc_name = ''Alice'', uc_email = ''a@x.com''\<rparr>"

definition bob :: UserCreate where
  "bob = \<lparr>uc_name = ''Bob'', uc_email = ''b@x.com''\<rparr>"

definition dr_x :: LecturerCreate where
  "dr_x = \<lparr>lc_name = ''Dr. X'', lc_department = ''CS''\<rparr>"

definition scenario :: files where
  "scenario = run [RegisterUser alice, RegisterUser bob, AddLecturer dr_x] ensure_files_exist"

text \<open>
  A longer session: a repeated registration and an evaluation with rating 9 are refused
  on the way.
\<close>

definition session :: "request list" where
  "session =
     [RegisterUser alice, RegisterUser alice, AddLecturer dr_x,
      SubmitEvaluation \<lparr>user_index = ''0001'', lecturer_id = ''L0001'', rating = 9, comments = None\<rparr>,
      RegisterUser bob, AddLecturer dr_x, ListLecturers,
      SubmitEvaluation \<lparr>user_index = ''0002'', lecturer_id = ''L0002'', rating = 5,
        comments = Some ''clear''\<rparr>]"

section \<open>The decimal format is injective\<close>

definition digit_val :: "char \<Rightarrow> nat" where
  "digit_val c = of_char c - 48"

definition parse_nat :: "string \<Rightarrow> nat" where
  "parse_nat s = foldl (\<lambda>a c. 10 * a + digit_val c) 0 s"

lemma digits_roundtrip: "list_all (\<lambda>d. digit_val (digit_char d) = d) [0..<10]"
  by code_simp

lemma digit_val_digit_char: "d < 10 \<Longrightarrow> digit_val (digit_char d) = d"
  using digits_roundtrip by (simp add: list_all_iff)

lemma parse_nat_snoc: "parse_nat (s @ [c]) = 10 * parse_nat s + digit_val c"
  by (simp add: parse_nat_def)

lemma parse_nat_str_nat: "parse_nat (str_nat n) = n"
proof (induction n rule: str_nat.induct)
  case (1 n)
  show ?case
  proof (cases "n < 10")
    case True
    then show ?thesis
      by (simp add: str_nat.simps [of n] parse_nat_def digit_val_digit_char)
  next
    case False
    with 1 have "parse_nat (str_nat (n div 10)) = n div 10"
      by simp
    with False show ?thesis
      by (simp add: str_nat.simps [of n] parse_nat_snoc digit_val_digit_char)
  qed
qed

lemma parse_nat_zeros: "parse_nat (replicate k CHR ''0'' @ s) = parse_nat s"
proof -
  have "foldl (\<lambda>a c. 10 * a + digit_val c) 0 (replicate k CHR ''0'') = 0"
    by (induction k) (simp_all add: digit_val_def)
  then show ?thesis
    by (simp add: parse_nat_def)
qed

lemma parse_nat_fmt_04d: "parse_nat (fmt_04d n) = n"
  by (simp add: fmt_04d_def parse_nat_zeros parse_nat_str_nat)

lemma inj_fmt_04d: "inj fmt_04d"
  by (rule inj_on_inverseI [where g = parse_nat]) (rule parse_nat_fmt_04d)

lemma fmt_04d_eq_iff: "fmt_04d m = fmt_04d n \<longleftrightarrow> m = n"
  using inj_fmt_04d by (auto dest: injD)

section \<open>The scenario, evaluated\<close>

lemma fmt_04d_1: "fmt_04d (Suc 0) = ''0001''"
  by code_simp

lemma fmt_04d_2: "fmt_04d (Suc (Suc 0)) = ''0002''"
  by code_simp

lemma scenario_files:
  "scenario =
     \<lparr>USERS_FILE =
        [\<lparr>u_index = ''0001'', u_name = ''Alice'', u_email = ''a@x.com''\<rparr>,
         \<lparr>u_index = ''0002'', u_name = ''Bob'', u_email = ''b@x.com''\<rparr>],
      LECTURERS_FILE = [\<lparr>l_id = ''L0001'', l_name = ''Dr. X'', l_department = ''CS''\<rparr>],
      EVALUATIONS_FILE = []\<rparr>"
  by (simp add: scenario_def ensure_files_exist_def alice_def bob_def dr_x_def
      register_user_def add_lecturer_def generate_user_index_def generate_lecturer_id_def
      fmt_04d_1 fmt_04d_2 Let_def)

section \<open>What a sequence of requests stores\<close>

lemma fmt_04d_fresh: "fmt_04d (Suc n) \<notin> set (map fmt_04d [1..<Suc n])"
  by (auto simp add: fmt_04d_eq_iff)

lemma L_fmt_04d_fresh:
  "CHR ''L'' # fmt_04d (Suc n) \<notin> set (map (\<lambda>k. CHR ''L'' # fmt_04d k) [1..<Suc n])"
  by (auto simp add: fmt_04d_eq_iff)

lemma sequential_snoc:
  assumes "map f xs = map g [1..<Suc (length xs)]" and "f x = g (Suc (length xs))"
  shows "map f (xs @ [x]) = map g [1..<Suc (length (xs @ [x]))]"
proof -
  have "[1..<Suc (length (xs @ [x]))] = [1..<Suc (length xs)] @ [Suc (length xs)]"
    by simp
  with assms show ?thesis
    by (simp del: upt_Suc)
qed

lemma users_handle:
  "USERS_FILE (handle r fs) =
     (if is_RegisterUser r \<and> ok r fs
      then USERS_FILE fs @
        [\<lparr>u_index = fmt_04d (Suc (length (USERS_FILE fs))),
          u_name = (case r of RegisterUser usr \<Rightarrow> uc_name usr | _ \<Rightarrow> []),
          u_email = (case r of RegisterUser usr \<Rightarrow> uc_email usr | _ \<Rightarrow> [])\<rparr>]
      else USERS_FILE fs)"
  by (cases r)
    (simp_all add: register_user_def add_lecturer_def list_lecturers_def
      evaluate_lecturer_def get_evaluations_def generate_user_index_def Let_def)

lemma lecturers_handle:
  "LECTURERS_FILE (handle r fs) =
     (if is_AddLecturer r
      then LECTURERS_FILE fs @
        [\<lparr>l_id = CHR ''L'' # fmt_04d (Suc (length (LECTURERS_FILE fs))),
          l_name = (case r of AddLecturer lec \<Rightarrow> lc_name lec | _ \<Rightarrow> []),
          l_department = (case r of AddLecturer lec \<Rightarrow> lc_department lec | _ \<Rightarrow> [])\<rparr>]
      else LECTURERS_FILE fs)"
  by (cases r)
    (simp_all add: register_user_def add_lecturer_def list_lecturers_def
      evaluate_lecturer_def get_evaluations_def generate_lecturer_id_def Let_def)

lemma handle_users_sequential:
  assumes "users_sequential fs"
  shows "users_sequential (handle r fs)"
proof (cases "is_RegisterUser r \<and> ok r fs")
  case True
  from assms have "map u_index (USERS_FILE fs) = map fmt_04d [1..<Suc (length (USERS_FILE fs))]"
    by (simp add: users_sequential_def)
  then show ?thesis
    unfolding users_sequential_def users_handle [of r fs] if_P [OF True]
    by (rule sequential_snoc) simp
next
  case False
  have "USERS_FILE (handle r fs) = USERS_FILE fs"
    unfolding users_handle [of r fs] if_not_P [OF False] by (rule refl)
  with assms show ?thesis
    by (simp add: users_sequential_def del: upt_Suc)
qed

lemma handle_lecturers_sequential:
  assumes "lecturers_sequential fs"
  shows "lecturers_sequential (handle r fs)"
proof (cases "is_AddLecturer r")
  case True
  from assms have "map l_id (LECTURERS_FILE fs) =
      map (\<lambda>k. CHR ''L'' # fmt_04d k) [1..<Suc (length (LECTURERS_FILE fs))]"
    by (simp add: lecturers_sequential_def)
  then show ?thesis
    unfolding lecturers_sequential_def lecturers_handle [of r fs] if_P [OF True]
    by (rule sequential_snoc) simp
next
  case False
  have "LECTURERS_FILE (handle r fs) = LECTURERS_FILE fs"
    unfolding lecturers_handle [of r fs] if_not_P [OF False] by (rule refl)
  with assms show ?thesis
    by (simp add: lecturers_sequential_def del: upt_Suc)
qed

lemma register_user_invariants:
  assumes "users_sequential fs" and "invariants fs"
  shows "invariants (snd (register_user usr fs))"
proof (cases "list_ex (\<lambda>u. u_email u = uc_email usr) (USERS_FILE fs)")
  case True
  with assms show ?thesis
    by (simp add: register_user_def)
next
  case False
  from assms(1) have idx: "map u_index (USERS_FILE fs) = map fmt_04d [1..<Suc (length (USERS_FILE fs))]"
    by (simp add: users_sequential_def)
  have fresh: "fmt_04d (Suc (length (USERS_FILE fs))) \<notin> set (map u_index (USERS_FILE fs))"
    unfolding idx by (rule fmt_04d_fresh)
  from False have email: "uc_email usr \<notin> set (map u_email (USERS_FILE fs))"
    by (auto simp add: list_ex_iff)
  from assms(2) False fresh email show ?thesis
    by (auto simp add: invariants_def register_user_def generate_user_index_def Let_def
        list_all_iff list_ex_iff)
qed

lemma add_lecturer_invariants:
  assumes "lecturers_sequential fs" and "invariants fs"
  shows "invariants (snd (add_lecturer lec fs))"
proof -
  from assms(1) have ids: "map l_id (LECTURERS_FILE fs) =
      map (\<lambda>k. CHR ''L'' # fmt_04d k) [1..<Suc (length (LECTURERS_FILE fs))]"
    by (simp add: lecturers_sequential_def)
  have fresh: "CHR ''L'' # fmt_04d (Suc (length (LECTURERS_FILE fs))) \<notin> set (map l_id (LECTURERS_FILE fs))"
    unfolding ids by (rule L_fmt_04d_fresh)
  from assms(2) fresh show ?thesis
    by (auto simp add: invariants_def add_lecturer_def generate_lecturer_id_def Let_def
        list_all_iff list_ex_iff)
qed

lemma evaluate_lecturer_invariants:
  assumes "invariants fs"
  shows "invariants (snd (evaluate_lecturer ev fs))"
  using assms
  by (auto simp add: invariants_def evaluate_lecturer_def Let_def list_all_iff list_ex_iff)

lemma handle_invariants:
  assumes "users_sequential fs" and "lecturers_sequential fs" and "invariants fs"
  shows "invariants (handle r fs)"
proof (cases r)
  case (RegisterUser usr)
  with assms show ?thesis by (simp add: register_user_invariants)
next
  case (AddLecturer lec)
  with assms show ?thesis by (simp add: add_lecturer_invariants)
next
  case ListLecturers
  with assms show ?thesis by (simp add: list_lecturers_def)
next
  case (SubmitEvaluation ev)
  with assms show ?thesis by (simp add: evaluate_lecturer_invariants)
next
  case ListEvaluations
  with assms show ?thesis by (simp add: get_evaluations_def)
qed

lemma run_users_sequential: "users_sequential fs \<Longrightarrow> users_sequential (run rs fs)"
  by (induction rs arbitrary: fs) (simp_all add: handle_users_sequential)

lemma run_lecturers_sequential: "lecturers_sequential fs \<Longrightarrow> lecturers_sequential (run rs fs)"
  by (induction rs arbitrary: fs) (simp_all add: handle_lecturers_sequential)

lemma run_invariants:
  "users_sequential fs \<Longrightarrow> lecturers_sequential fs \<Longrightarrow> invariants fs \<Longrightarrow> invariants (run rs fs)"
  by (induction rs arbitrary: fs)
    (simp_all add: handle_users_sequential handle_lecturers_sequential handle_invariants)

lemma ok_AddLecturer: "is_AddLecturer r \<Longrightarrow> ok r fs"
  by (cases r) (simp_all add: add_lecturer_def Let_def)

lemma length_registrations: "length (registrations rs) = length (filter is_RegisterUser rs)"
  by (induction rs rule: registrations.induct) simp_all

lemma length_additions: "length (additions rs) = length (filter is_AddLecturer rs)"
  by (induction rs rule: additions.induct) simp_all

lemma users_run:
  "USERS_FILE (run rs fs) =
     USERS_FILE fs @
     map stored_user (enumerate (Suc (length (USERS_FILE fs))) (registrations (successful rs fs)))"
proof (induction rs arbitrary: fs)
  case Nil
  show ?case by simp
next
  case (Cons r rs)
  show ?case
  proof (cases "is_RegisterUser r \<and> ok r fs")
    case True
    then obtain usr where r: "r = RegisterUser usr"
      by (cases r) simp_all
    from True have "USERS_FILE (handle r fs) = USERS_FILE fs @ [stored_user (Suc (length (USERS_FILE fs)), usr)]"
      unfolding users_handle [of r fs] by (simp add: r stored_user_def)
    with True r Cons [of "handle r fs"] show ?thesis
      by simp
  next
    case False
    have same: "USERS_FILE (handle r fs) = USERS_FILE fs"
      unfolding users_handle [of r fs] if_not_P [OF False] by (rule refl)
    from False have "registrations (successful (r # rs) fs) = registrations (successful rs (handle r fs))"
      by (cases r) simp_all
    with same Cons [of "handle r fs"] show ?thesis
      by simp
  qed
qed

lemma lecturers_run:
  "LECTURERS_FILE (run rs fs) =
     LECTURERS_FILE fs @
     map stored_lecturer
       (enumerate (Suc (length (LECTURERS_FILE fs))) (additions (successful rs fs)))"
proof (induction rs arbitrary: fs)
  case Nil
  show ?case by simp
next
  case (Cons r rs)
  show ?case
  proof (cases "is_AddLecturer r")
    case True
    then obtain lec where r: "r = AddLecturer lec"
      by (cases r) simp_all
    from True have "LECTURERS_FILE (handle r fs) =
        LECTURERS_FILE fs @ [stored_lecturer (Suc (length (LECTURERS_FILE fs)), lec)]"
      unfolding lecturers_handle [of r fs] by (simp add: r stored_lecturer_def)
    moreover from True have "ok r fs"
      by (rule ok_AddLecturer)
    ultimately show ?thesis
      using r Cons [of "handle r fs"] by simp
  next
    case False
    have same: "LECTURERS_FILE (handle r fs) = LECTURERS_FILE fs"
      unfolding lecturers_handle [of r fs] if_not_P [OF False] by (rule refl)
    from False have "additions (successful (r # rs) fs) = additions (successful rs (handle r fs))"
      by (cases r) simp_all
    with same Cons [of "handle r fs"] show ?thesis
      by simp
  qed
qed

lemma indices_enumerate:
  "map u_index (map stored_user (enumerate 1 us)) = map fmt_04d [1..<Suc (length us)]"
proof -
  have "u_index \<circ> stored_user = fmt_04d \<circ> fst"
    by (rule ext) (simp add: stored_user_def)
  then have "map u_index (map stored_user (enumerate 1 us)) =
      map fmt_04d (map fst (enumerate 1 us))"
    by (simp only: map_map)
  also have "map fst (enumerate 1 us) = [1..<Suc (length us)]"
    by (simp only: map_fst_enumerate plus_1_eq_Suc)
  finally show ?thesis .
qed

lemma ids_enumerate:
  "map l_id (map stored_lecturer (enumerate 1 ls)) =
     map (\<lambda>k. CHR ''L'' # fmt_04d k) [1..<Suc (length ls)]"
proof -
  have "l_id \<circ> stored_lecturer = (\<lambda>k. CHR ''L'' # fmt_04d k) \<circ> fst"
    by (rule ext) (simp add: stored_lecturer_def)
  then have "map l_id (map stored_lecturer (enumerate 1 ls)) =
      map (\<lambda>k. CHR ''L'' # fmt_04d k) (map fst (enumerate 1 ls))"
    by (simp only: map_map)
  also have "map fst (enumerate 1 ls) = [1..<Suc (length ls)]"
    by (simp only: map_fst_enumerate plus_1_eq_Suc)
  finally show ?thesis .
qed

lemma evaluations_handle:
  "\<exists>ys. EVALUATIONS_FILE (handle r fs) = EVALUATIONS_FILE fs @ ys"
  by (cases r)
    (simp_all add: register_user_def add_lecturer_def list_lecturers_def
      evaluate_lecturer_def get_evaluations_def Let_def)

lemma evaluations_run:
  "\<exists>ys. EVALUATIONS_FILE (run rs fs) = EVALUATIONS_FILE fs @ ys"
proof (induction rs arbitrary: fs)
  case Nil
  show ?case by simp
next
  case (Cons r rs)
  from evaluations_handle [of r fs] obtain ys
    where ys: "EVALUATIONS_FILE (handle r fs) = EVALUATIONS_FILE fs @ ys" ..
  from Cons [of "handle r fs"] obtain zs
    where "EVALUATIONS_FILE (run rs (handle r fs)) = EVALUATIONS_FILE (handle r fs) @ zs" ..
  with ys show ?case
    by simp
qed


lemma ensure_files_exist_start:
  "users_sequential ensure_files_exist" "lecturers_sequential ensure_files_exist"
  "invariants ensure_files_exist"
  by (simp_all add: users_sequential_def lecturers_sequential_def invariants_def
      ensure_files_exist_def)

lemma session_files:
  "run session ensure_files_exist =
     \<lparr>USERS_FILE =
        [\<lparr>u_index = ''0001'', u_name = ''Alice'', u_email = ''a@x.com''\<rparr>,
         \<lparr>u_index = ''0002'', u_name = ''Bob'', u_email = ''b@x.com''\<rparr>],
      LECTURERS_FILE =
        [\<lparr>l_id = ''L0001'', l_name = ''Dr. X'', l_department = ''CS''\<rparr>,
         \<lparr>l_id = ''L0002'', l_name = ''Dr. X'', l_department = ''CS''\<rparr>],
      EVALUATIONS_FILE =
        [\<lparr>e_user_index = ''0002'', e_lecturer_id = ''L0002'', e_rating = 5,
          e_comments = Some ''clear''\<rparr>]\<rparr>"
  by (simp add: session_def ensure_files_exist_def alice_def bob_def dr_x_def
      register_user_def add_lecturer_def evaluate_lecturer_def list_lecturers_def
      generate_user_index_def generate_lecturer_id_def fmt_04d_1 fmt_04d_2 Let_def)

section \<open>Registration\<close>

lemma EmailStr_examples:
  "EmailStr ''not-an-email'' = None"
  "EmailStr ''a@X.COM'' = Some ''a@x.com''"
  "EmailStr ''A@x.com'' = Some ''A@x.com''"
  by code_simp+

text \<open>
  Claim C3, as amended. A candidate whose email fails the validation of
  \<^verbatim>\<open>EmailStr\<close> is refused with a validation error and the files are as before.
  For a candidate whose email passes it, with \<open>e\<close> the address that the validation
  returns: if some stored user has the email \<open>e\<close>, compared character by character,
  the registration raises the 400 "User already exists" error and the files are as
  before, so the number of stored users is unchanged; if no stored user has the email
  \<open>e\<close>, the registration returns a response and appends the user under \<open>e\<close>. This
  holds for every validation function.
\<close>

theorem C3_register_validated_email:
  "(email_str email = None \<longrightarrow>
      post_register email_str name email fs = (Inl RequestValidationError, fs)) \<and>
   (email_str email = Some e \<and> list_ex (\<lambda>u. u_email u = e) (USERS_FILE fs) \<longrightarrow>
      post_register email_str name email fs =
        (Inl (Raised (HTTPException 400 ''User already exists'')), fs) \<and>
      length (USERS_FILE (snd (post_register email_str name email fs))) =
        length (USERS_FILE fs)) \<and>
   (email_str email = Some e \<and> \<not> list_ex (\<lambda>u. u_email u = e) (USERS_FILE fs) \<longrightarrow>
      \<not> isl (fst (post_register email_str name email fs)) \<and>
      USERS_FILE (snd (post_register email_str name email fs)) =
        USERS_FILE fs @
        [\<lparr>u_index = fmt_04d (Suc (length (USERS_FILE fs))), u_name = name, u_email = e\<rparr>])"
  by (simp add: post_register_def register_user_def generate_user_index_def Let_def)

theorem C3_register_validated_email_witness:
  "EmailStr ''not-an-email'' = None \<and>
   post_register EmailStr ''Eve'' ''not-an-email'' scenario =
     (Inl RequestValidationError, scenario) \<and>
   EmailStr ''a@X.COM'' = Some ''a@x.com'' \<and>
   list_ex (\<lambda>u. u_email u = ''a@x.com'') (USERS_FILE scenario) \<and>
   post_register EmailStr ''Alice'' ''a@X.COM'' scenario =
     (Inl (Raised (HTTPException 400 ''User already exists'')), scenario) \<and>
   length (USERS_FILE (snd (post_register EmailStr ''Alice'' ''a@X.COM'' scenario))) = 2 \<and>
   EmailStr ''A@x.com'' = Some ''A@x.com'' \<and>
   \<not> list_ex (\<lambda>u. u_email u = ''A@x.com'') (USERS_FILE scenario) \<and>
   \<not> isl (fst (post_register EmailStr ''Alice'' ''A@x.com'' scenario)) \<and>
   USERS_FILE (snd (post_register EmailStr ''Alice'' ''A@x.com'' scenario)) =
     [\<lparr>u_index = ''0001'', u_name = ''Alice'', u_email = ''a@x.com''\<rparr>,
      \<lparr>u_index = ''0002'', u_name = ''Bob'', u_email = ''b@x.com''\<rparr>,
      \<lparr>u_index = ''0003'', u_name = ''Alice'', u_email = ''A@x.com''\<rparr>]"
proof -
  have dup: "list_ex (\<lambda>u. u_email u = ''a@x.com'') (USERS_FILE scenario)"
    by (simp add: scenario_files)
  have fresh: "\<not> list_ex (\<lambda>u. u_email u = ''A@x.com'') (USERS_FILE scenario)"
    by (simp add: scenario_files)
  have users: "USERS_FILE scenario =
      [\<lparr>u_index = ''0001'', u_name = ''Alice'', u_email = ''a@x.com''\<rparr>,
       \<lparr>u_index = ''0002'', u_name = ''Bob'', u_email = ''b@x.com''\<rparr>]"
    by (simp add: scenario_files)
  have third: "fmt_04d (Suc (Suc (Suc 0))) = ''0003''"
    by code_simp
  show ?thesis
    using dup fresh EmailStr_examples
      C3_register_validated_email
        [where email_str = EmailStr and email = "''not-an-email''" and name = "''Eve''"
           and fs = scenario]
      C3_register_validated_email
        [where email_str = EmailStr and email = "''a@X.COM''" and e = "''a@x.com''"
           and name = "''Alice''" and fs = scenario]
      C3_register_validated_email
        [where email_str = EmailStr and email = "''A@x.com''" and e = "''A@x.com''"
           and name = "''Alice''" and fs = scenario]
    by (simp add: users third)
qed

text \<open>
  Claim C3 as stated fails in its second part. On a fresh installation no stored user
  has the email "not-an-email", and the registration is refused, since the string is
  not an email address. With Alice stored under "a@x.com", no stored user has the
  email "a@X.COM" character by character, and the registration is refused as a
  duplicate, the validated address being "a@x.com".
\<close>

theorem C3_register_validated_email_counterexample:
  "\<not> list_ex (\<lambda>u. u_email u = ''not-an-email'') (USERS_FILE ensure_files_exist) \<and>
   post_register EmailStr ''Eve'' ''not-an-email'' ensure_files_exist =
     (Inl RequestValidationError, ensure_files_exist) \<and>
   \<not> list_ex (\<lambda>u. u_email u = ''a@X.COM'') (USERS_FILE scenario) \<and>
   post_register EmailStr ''Alice'' ''a@X.COM'' scenario =
     (Inl (Raised (HTTPException 400 ''User already exists'')), scenario)"
  by (simp add: post_register_def register_user_def EmailStr_examples scenario_files
      ensure_files_exist_def)

section \<open>Evaluations\<close>

text \<open>
  Claim C4. A request whose \<^verbatim>\<open>user_index\<close> is the index of no stored user raises
  404 "User not found" and leaves every file, the evaluations among them, as it was. A
  request whose \<^verbatim>\<open>lecturer_id\<close> is the id of no stored lecturer raises a 404 error
  too (for the lecturer when the user exists, for the user otherwise) and leaves the
  files as they were.
\<close>

theorem C4_evaluate_not_found:
  "(\<not> list_ex (\<lambda>u. u_index u = user_index ev) (USERS_FILE fs) \<longrightarrow>
      evaluate_lecturer ev fs = (Inl (HTTPException 404 ''User not found''), fs) \<and>
      EVALUATIONS_FILE (snd (evaluate_lecturer ev fs)) = EVALUATIONS_FILE fs) \<and>
   (\<not> list_ex (\<lambda>l. l_id l = lecturer_id ev) (LECTURERS_FILE fs) \<longrightarrow>
      evaluate_lecturer ev fs =
        (Inl (HTTPException 404
           (if list_ex (\<lambda>u. u_index u = user_index ev) (USERS_FILE fs)
            then ''Lecturer not found'' else ''User not found'')), fs) \<and>
      EVALUATIONS_FILE (snd (evaluate_lecturer ev fs)) = EVALUATIONS_FILE fs)"
  by (simp add: evaluate_lecturer_def Let_def)

theorem C4_evaluate_not_found_witness:
  "\<not> list_ex (\<lambda>u. u_index u = ''0003'') (USERS_FILE scenario) \<and>
   evaluate_lecturer
     \<lparr>user_index = ''0003'', lecturer_id = ''L0001'', rating = 4, comments = Some ''good''\<rparr>
     scenario = (Inl (HTTPException 404 ''User not found''), scenario) \<and>
   \<not> list_ex (\<lambda>l. l_id l = ''L0002'') (LECTURERS_FILE scenario) \<and>
   evaluate_lecturer
     \<lparr>user_index = ''0001'', lecturer_id = ''L0002'', rating = 4, comments = Some ''good''\<rparr>
     scenario = (Inl (HTTPException 404 ''Lecturer not found''), scenario)"
proof -
  have no_user: "\<not> list_ex (\<lambda>u. u_index u = ''0003'') (USERS_FILE scenario)"
    by (simp add: scenario_files)
  have user: "list_ex (\<lambda>u. u_index u = ''0001'') (USERS_FILE scenario)"
    by (simp add: scenario_files)
  have no_lecturer: "\<not> list_ex (\<lambda>l. l_id l = ''L0002'') (LECTURERS_FILE scenario)"
    by (simp add: scenario_files)
  show ?thesis
    using no_user user no_lecturer
      C4_evaluate_not_found [of "\<lparr>user_index = ''0003'', lecturer_id = ''L0001'', rating = 4,
        comments = Some ''good''\<rparr>" scenario]
      C4_evaluate_not_found [of "\<lparr>user_index = ''0001'', lecturer_id = ''L0002'', rating = 4,
        comments = Some ''good''\<rparr>" scenario]
    by simp
qed

text \<open>
  Claim C5. With a stored user and a stored lecturer, a rating of 0 or of 6 raises the
  400 "Rating must be between 1 and 5" error, a rating of 1 or of 5 is accepted, and
  in general the request is accepted exactly when the rating is in the interval from 1
  to 5, both ends included, and raises that error otherwise.
\<close>

theorem C5_rating_range:
  assumes "list_ex (\<lambda>u. u_index u = ui) (USERS_FILE fs)"
    and "list_ex (\<lambda>l. l_id l = lid) (LECTURERS_FILE fs)"
  shows
    "fst (evaluate_lecturer \<lparr>user_index = ui, lecturer_id = lid, rating = 0, comments = c\<rparr> fs) =
       Inl (HTTPException 400 ''Rating must be between 1 and 5'') \<and>
     fst (evaluate_lecturer \<lparr>user_index = ui, lecturer_id = lid, rating = 6, comments = c\<rparr> fs) =
       Inl (HTTPException 400 ''Rating must be between 1 and 5'') \<and>
     fst (evaluate_lecturer \<lparr>user_index = ui, lecturer_id = lid, rating = 1, comments = c\<rparr> fs) =
       Inr [(''message'', ''Evaluation submitted successfully'')] \<and>
     fst (evaluate_lecturer \<lparr>user_index = ui, lecturer_id = lid, rating = 5, comments = c\<rparr> fs) =
       Inr [(''message'', ''Evaluation submitted successfully'')] \<and>
     fst (evaluate_lecturer \<lparr>user_index = ui, lecturer_id = lid, rating = r, comments = c\<rparr> fs) =
       (if 1 \<le> r \<and> r \<le> 5 then Inr [(''message'', ''Evaluation submitted successfully'')]
        else Inl (HTTPException 400 ''Rating must be between 1 and 5''))"
  using assms by (auto simp add: evaluate_lecturer_def Let_def)

theorem C5_rating_range_witness:
  "list_ex (\<lambda>u. u_index u = ''0002'') (USERS_FILE scenario) \<and>
   list_ex (\<lambda>l. l_id l = ''L0001'') (LECTURERS_FILE scenario) \<and>
   fst (evaluate_lecturer
     \<lparr>user_index = ''0002'', lecturer_id = ''L0001'', rating = 0, comments = None\<rparr> scenario) =
     Inl (HTTPException 400 ''Rating must be between 1 and 5'') \<and>
   fst (evaluate_lecturer
     \<lparr>user_index = ''0002'', lecturer_id = ''L0001'', rating = 6, comments = None\<rparr> scenario) =
     Inl (HTTPException 400 ''Rating must be between 1 and 5'') \<and>
   fst (evaluate_lecturer
     \<lparr>user_index = ''0002'', lecturer_id = ''L0001'', rating = 1, comments = None\<rparr> scenario) =
     Inr [(''message'', ''Evaluation submitted successfully'')] \<and>
   fst (evaluate_lecturer
     \<lparr>user_index = ''0002'', lecturer_id = ''L0001'', rating = 5, comments = None\<rparr> scenario) =
     Inr [(''message'', ''Evaluation submitted successfully'')] \<and>
   fst (evaluate_lecturer
     \<lparr>user_index = ''0002'', lecturer_id = ''L0001'', rating = - 3, comments = None\<rparr> scenario) =
     Inl (HTTPException 400 ''Rating must be between 1 and 5'')"
proof -
  have user: "list_ex (\<lambda>u. u_index u = ''0002'') (USERS_FILE scenario)"
    by (simp add: scenario_files)
  have lec: "list_ex (\<lambda>l. l_id l = ''L0001'') (LECTURERS_FILE scenario)"
    by (simp add: scenario_files)
  show ?thesis
    using user lec C5_rating_range [OF user lec, of None "- 3"]
    by simp
qed

text \<open>
  Claim C6, as amended. When several checks fail at once, \<^verbatim>\<open>evaluate_lecturer\<close>
  reports the first failure in the order of its three \<^verbatim>\<open>if\<close> statements: the
  user, then the lecturer, then the rating. A request with an unknown user is answered
  404 "User not found" whatever its rating and lecturer; one with a known user and an
  unknown lecturer is answered 404 "Lecturer not found" whatever its rating; the rating
  error is reported only when both are known.
\<close>

theorem C6_check_order:
  "(\<not> list_ex (\<lambda>u. u_index u = user_index ev) (USERS_FILE fs) \<longrightarrow>
      fst (evaluate_lecturer ev fs) = Inl (HTTPException 404 ''User not found'')) \<and>
   (list_ex (\<lambda>u. u_index u = user_index ev) (USERS_FILE fs) \<and>
    \<not> list_ex (\<lambda>l. l_id l = lecturer_id ev) (LECTURERS_FILE fs) \<longrightarrow>
      fst (evaluate_lecturer ev fs) = Inl (HTTPException 404 ''Lecturer not found'')) \<and>
   (list_ex (\<lambda>u. u_index u = user_index ev) (USERS_FILE fs) \<and>
    list_ex (\<lambda>l. l_id l = lecturer_id ev) (LECTURERS_FILE fs) \<and>
    (rating ev < 1 \<or> rating ev > 5) \<longrightarrow>
      fst (evaluate_lecturer ev fs) = Inl (HTTPException 400 ''Rating must be between 1 and 5''))"
  by (simp add: evaluate_lecturer_def Let_def)

theorem C6_check_order_witness:
  "\<not> list_ex (\<lambda>u. u_index u = ''0009'') (USERS_FILE scenario) \<and>
   fst (evaluate_lecturer
     \<lparr>user_index = ''0009'', lecturer_id = ''L0009'', rating = 7, comments = None\<rparr> scenario) =
     Inl (HTTPException 404 ''User not found'') \<and>
   list_ex (\<lambda>u. u_index u = ''0001'') (USERS_FILE scenario) \<and>
   \<not> list_ex (\<lambda>l. l_id l = ''L0009'') (LECTURERS_FILE scenario) \<and>
   fst (evaluate_lecturer
     \<lparr>user_index = ''0001'', lecturer_id = ''L0009'', rating = 7, comments = None\<rparr> scenario) =
     Inl (HTTPException 404 ''Lecturer not found'') \<and>
   list_ex (\<lambda>l. l_id l = ''L0001'') (LECTURERS_FILE scenario) \<and>
   fst (evaluate_lecturer
     \<lparr>user_index = ''0001'', lecturer_id = ''L0001'', rating = 7, comments = None\<rparr> scenario) =
     Inl (HTTPException 400 ''Rating must be between 1 and 5'')"
proof -
  have no_user: "\<not> list_ex (\<lambda>u. u_index u = ''0009'') (USERS_FILE scenario)"
    by (simp add: scenario_files)
  have user: "list_ex (\<lambda>u. u_index u = ''0001'') (USERS_FILE scenario)"
    by (simp add: scenario_files)
  have no_lec: "\<not> list_ex (\<lambda>l. l_id l = ''L0009'') (LECTURERS_FILE scenario)"
    by (simp add: scenario_files)
  have lec: "list_ex (\<lambda>l. l_id l = ''L0001'') (LECTURERS_FILE scenario)"
    by (simp add: scenario_files)
  show ?thesis
    using no_user user no_lec lec
      C6_check_order [of "\<lparr>user_index = ''0009'', lecturer_id = ''L0009'', rating = 7,
        comments = None\<rparr>" scenario]
      C6_check_order [of "\<lparr>user_index = ''0001'', lecturer_id = ''L0009'', rating = 7,
        comments = None\<rparr>" scenario]
      C6_check_order [of "\<lparr>user_index = ''0001'', lecturer_id = ''L0001'', rating = 7,
        comments = None\<rparr>" scenario]
    by simp
qed

text \<open>
  Claim C6 as stated fails: on a fresh installation a request with rating 0 and the
  unknown user index "0001" fails both the rating check and the user check, and the
  reported failure is 404 "User not found", not the rating error.
\<close>

theorem C6_check_order_counterexample:
  "rating \<lparr>user_index = ''0001'', lecturer_id = ''L0001'', rating = 0, comments = None\<rparr> < 1 \<and>
   \<not> list_ex (\<lambda>u. u_index u = ''0001'') (USERS_FILE ensure_files_exist) \<and>
   fst (evaluate_lecturer
     \<lparr>user_index = ''0001'', lecturer_id = ''L0001'', rating = 0, comments = None\<rparr>
     ensure_files_exist) = Inl (HTTPException 404 ''User not found'') \<and>
   fst (evaluate_lecturer
     \<lparr>user_index = ''0001'', lecturer_id = ''L0001'', rating = 0, comments = None\<rparr>
     ensure_files_exist) \<noteq> Inl (HTTPException 400 ''Rating must be between 1 and 5'')"
  by (simp add: evaluate_lecturer_def ensure_files_exist_def)

text \<open>
  Claim C10. A request without the \<^verbatim>\<open>comments\<close> field, with a stored user, a stored
  lecturer and a rating from 1 to 5, is accepted; the stored evaluation has
  \<^verbatim>\<open>comments\<close> \<open>None\<close>, and \<^verbatim>\<open>get_evaluations\<close> then returns the earlier
  evaluations followed by that record, its \<^verbatim>\<open>comments\<close> field present with value
  \<open>None\<close>.
\<close>

theorem C10_comments_default:
  assumes "list_ex (\<lambda>u. u_index u = ui) (USERS_FILE fs)"
    and "list_ex (\<lambda>l. l_id l = lid) (LECTURERS_FILE fs)"
    and "1 \<le> r" and "r \<le> 5"
  shows
    "fst (evaluate_lecturer (EvaluationCreate_no_comments ui lid r) fs) =
       Inr [(''message'', ''Evaluation submitted successfully'')] \<and>
     e_comments (last (EVALUATIONS_FILE
       (snd (evaluate_lecturer (EvaluationCreate_no_comments ui lid r) fs)))) = None \<and>
     fst (get_evaluations (snd (evaluate_lecturer (EvaluationCreate_no_comments ui lid r) fs))) =
       Inr (EVALUATIONS_FILE fs @
         [\<lparr>e_user_index = ui, e_lecturer_id = lid, e_rating = r, e_comments = None\<rparr>])"
  using assms
  by (simp add: evaluate_lecturer_def get_evaluations_def EvaluationCreate_no_comments_def Let_def)

theorem C10_comments_default_witness:
  "list_ex (\<lambda>u. u_index u = ''0001'') (USERS_FILE scenario) \<and>
   list_ex (\<lambda>l. l_id l = ''L0001'') (LECTURERS_FILE scenario) \<and>
   (1::int) \<le> 5 \<and> (5::int) \<le> 5 \<and>
   fst (evaluate_lecturer (EvaluationCreate_no_comments ''0001'' ''L0001'' 5) scenario) =
     Inr [(''message'', ''Evaluation submitted successfully'')] \<and>
   fst (get_evaluations
     (snd (evaluate_lecturer (EvaluationCreate_no_comments ''0001'' ''L0001'' 5) scenario))) =
     Inr [\<lparr>e_user_index = ''0001'', e_lecturer_id = ''L0001'', e_rating = 5, e_comments = None\<rparr>]"
proof -
  have user: "list_ex (\<lambda>u. u_index u = ''0001'') (USERS_FILE scenario)"
    by (simp add: scenario_files)
  have lec: "list_ex (\<lambda>l. l_id l = ''L0001'') (LECTURERS_FILE scenario)"
    by (simp add: scenario_files)
  have lo: "(1::int) \<le> 5" and hi: "(5::int) \<le> 5"
    by simp_all
  have no_evaluations: "EVALUATIONS_FILE scenario = []"
    by (simp add: scenario_files)
  show ?thesis
    using user lec no_evaluations C10_comments_default [OF user lec lo hi]
    by simp
qed

section \<open>Lecturers\<close>

text \<open>
  Claim C7, as amended. \<^verbatim>\<open>add_lecturer\<close> has no failure mode: for every state of
  the files and every name and department, the empty string included, it returns a
  response carrying the new id and appends the lecturer under that id, whether or not a
  lecturer of the same name and department is stored already.
\<close>

theorem C7_add_lecturer_total:
  "add_lecturer lec fs =
     (Inr [(''lecturer_id'', CHR ''L'' # fmt_04d (Suc (length (LECTURERS_FILE fs)))),
           (''message'', ''Lecturer added successfully'')],
      fs\<lparr>LECTURERS_FILE := LECTURERS_FILE fs @
        [\<lparr>l_id = CHR ''L'' # fmt_04d (Suc (length (LECTURERS_FILE fs))),
          l_name = lc_name lec, l_department = lc_department lec\<rparr>]\<rparr>) \<and>
   \<not> isl (fst (add_lecturer lec fs))"
  by (simp add: add_lecturer_def generate_lecturer_id_def Let_def)

theorem C7_add_lecturer_total_witness:
  "fst (add_lecturer dr_x scenario) =
     Inr [(''lecturer_id'', ''L0002''), (''message'', ''Lecturer added successfully'')] \<and>
   LECTURERS_FILE (snd (add_lecturer dr_x scenario)) =
     [\<lparr>l_id = ''L0001'', l_name = ''Dr. X'', l_department = ''CS''\<rparr>,
      \<lparr>l_id = ''L0002'', l_name = ''Dr. X'', l_department = ''CS''\<rparr>]"
  using C7_add_lecturer_total [of dr_x scenario]
  by (simp add: scenario_files dr_x_def fmt_04d_2)

text \<open>
  Claim C7 as stated fails in its last part: the accepted names and departments are not
  exactly the non-empty strings, since a lecturer with an empty name and an empty
  department is accepted and stored.
\<close>

theorem C7_add_lecturer_total_counterexample:
  "lc_name \<lparr>lc_name = [], lc_department = []\<rparr> = [] \<and>
   add_lecturer \<lparr>lc_name = [], lc_department = []\<rparr> ensure_files_exist =
     (Inr [(''lecturer_id'', ''L0001''), (''message'', ''Lecturer added successfully'')],
      \<lparr>USERS_FILE = [],
       LECTURERS_FILE = [\<lparr>l_id = ''L0001'', l_name = [], l_department = []\<rparr>],
       EVALUATIONS_FILE = []\<rparr>)"
  by (simp add: add_lecturer_def generate_lecturer_id_def ensure_files_exist_def fmt_04d_1 Let_def)

section \<open>Frame\<close>

text \<open>
  Claim C9. Every endpoint writes at most its own file: \<^verbatim>\<open>register_user\<close> leaves
  the lecturers and the evaluations as they were, \<^verbatim>\<open>add_lecturer\<close> the users and
  the evaluations, \<^verbatim>\<open>evaluate_lecturer\<close> the users and the lecturers, and the two
  GET endpoints leave all three files as they were.
\<close>

theorem C9_frame:
  "LECTURERS_FILE (snd (register_user usr fs)) = LECTURERS_FILE fs \<and>
   EVALUATIONS_FILE (snd (register_user usr fs)) = EVALUATIONS_FILE fs \<and>
   USERS_FILE (snd (add_lecturer lec fs)) = USERS_FILE fs \<and>
   EVALUATIONS_FILE (snd (add_lecturer lec fs)) = EVALUATIONS_FILE fs \<and>
   USERS_FILE (snd (evaluate_lecturer ev fs)) = USERS_FILE fs \<and>
   LECTURERS_FILE (snd (evaluate_lecturer ev fs)) = LECTURERS_FILE fs \<and>
   snd (list_lecturers fs) = fs \<and>
   snd (get_evaluations fs) = fs"
  by (simp add: register_user_def add_lecturer_def evaluate_lecturer_def list_lecturers_def
      get_evaluations_def Let_def)

theorem C9_frame_witness:
  "LECTURERS_FILE (snd (register_user \<lparr>uc_name = ''Carol'', uc_email = ''c@x.com''\<rparr> scenario)) =
     [\<lparr>l_id = ''L0001'', l_name = ''Dr. X'', l_department = ''CS''\<rparr>] \<and>
   EVALUATIONS_FILE (snd (register_user \<lparr>uc_name = ''Carol'', uc_email = ''c@x.com''\<rparr> scenario)) = [] \<and>
   length (USERS_FILE (snd (add_lecturer dr_x scenario))) = 2 \<and>
   length (USERS_FILE (snd (evaluate_lecturer
     \<lparr>user_index = ''0001'', lecturer_id = ''L0001'', rating = 5, comments = None\<rparr> scenario))) = 2 \<and>
   snd (list_lecturers scenario) = scenario \<and>
   snd (get_evaluations scenario) = scenario"
  using C9_frame [of "\<lparr>uc_name = ''Carol'', uc_email = ''c@x.com''\<rparr>" scenario dr_x
    "\<lparr>user_index = ''0001'', lecturer_id = ''L0001'', rating = 5, comments = None\<rparr>"]
  by (simp add: scenario_files)

section \<open>Invariants and identifiers over sequences of requests\<close>

text \<open>
  Claim C1. On a fresh installation, after any sequence of requests (registrations,
  lecturer additions, evaluations, listings, refused or not), the stored user indices
  are pairwise distinct, the stored emails are pairwise distinct, the stored lecturer
  ids are pairwise distinct, and every stored evaluation names the index of a stored
  user and the id of a stored lecturer and has a rating from 1 to 5. Requests are
  handled one at a time.
\<close>

theorem C1_invariants: "invariants (run rs ensure_files_exist)"
  by (rule run_invariants) (rule ensure_files_exist_start)+

theorem C1_invariants_witness:
  "invariants (run session ensure_files_exist) \<and>
   length (USERS_FILE (run session ensure_files_exist)) = 2 \<and>
   length (LECTURERS_FILE (run session ensure_files_exist)) = 2 \<and>
   length (EVALUATIONS_FILE (run session ensure_files_exist)) = 1"
  using C1_invariants [of session]
  by (simp add: session_files)

text \<open>
  Claim C2. Starting with no stored user, after any sequence of requests of which \<open>N\<close>
  registrations succeed, the stored indices are, in the order of the file, the values
  of the format \<^verbatim>\<open>04d\<close> at 1, ..., \<open>N\<close>, and the stored users are the
  successful registrations in the order they were made, the \<open>k\<close>-th under the index
  of \<open>k\<close>. Likewise for lecturers and the format \<^verbatim>\<open>L\<close> followed by
  \<^verbatim>\<open>04d\<close>.
\<close>

theorem C2_sequential_identifiers:
  "(USERS_FILE fs = [] \<longrightarrow>
      map u_index (USERS_FILE (run rs fs)) =
        map fmt_04d [1..<Suc (length (filter is_RegisterUser (successful rs fs)))] \<and>
      USERS_FILE (run rs fs) =
        map stored_user (enumerate 1 (registrations (successful rs fs)))) \<and>
   (LECTURERS_FILE fs = [] \<longrightarrow>
      map l_id (LECTURERS_FILE (run rs fs)) =
        map (\<lambda>k. CHR ''L'' # fmt_04d k)
          [1..<Suc (length (filter is_AddLecturer (successful rs fs)))] \<and>
      LECTURERS_FILE (run rs fs) =
        map stored_lecturer (enumerate 1 (additions (successful rs fs))))"
proof -
  have users: "USERS_FILE (run rs fs) =
      map stored_user (enumerate 1 (registrations (successful rs fs)))"
    if "USERS_FILE fs = []"
    using that users_run [of rs fs] by simp
  have lecturers: "LECTURERS_FILE (run rs fs) =
      map stored_lecturer (enumerate 1 (additions (successful rs fs)))"
    if "LECTURERS_FILE fs = []"
    using that lecturers_run [of rs fs] by simp
  have indices: "map u_index (USERS_FILE (run rs fs)) =
      map fmt_04d [1..<Suc (length (filter is_RegisterUser (successful rs fs)))]"
    if "USERS_FILE fs = []"
    by (simp only: users [OF that] indices_enumerate length_registrations)
  have ids: "map l_id (LECTURERS_FILE (run rs fs)) =
      map (\<lambda>k. CHR ''L'' # fmt_04d k)
        [1..<Suc (length (filter is_AddLecturer (successful rs fs)))]"
    if "LECTURERS_FILE fs = []"
    by (simp only: lecturers [OF that] ids_enumerate length_additions)
  show ?thesis
    using users lecturers indices ids by blast
qed

theorem C2_sequential_identifiers_witness:
  "USERS_FILE ensure_files_exist = [] \<and> LECTURERS_FILE ensure_files_exist = [] \<and>
   map u_index (USERS_FILE (run session ensure_files_exist)) =
     map fmt_04d
       [1..<Suc (length (filter is_RegisterUser (successful session ensure_files_exist)))] \<and>
   map fmt_04d
     [1..<Suc (length (filter is_RegisterUser (successful session ensure_files_exist)))] =
     [''0001'', ''0002''] \<and>
   map l_id (LECTURERS_FILE (run session ensure_files_exist)) =
     map (\<lambda>k. CHR ''L'' # fmt_04d k)
       [1..<Suc (length (filter is_AddLecturer (successful session ensure_files_exist)))] \<and>
   map (\<lambda>k. CHR ''L'' # fmt_04d k)
     [1..<Suc (length (filter is_AddLecturer (successful session ensure_files_exist)))] =
     [''L0001'', ''L0002'']"
proof -
  have no_users: "USERS_FILE ensure_files_exist = []"
    and no_lecturers: "LECTURERS_FILE ensure_files_exist = []"
    by (simp_all add: ensure_files_exist_def)
  have succ: "successful session ensure_files_exist =
      [RegisterUser alice, AddLecturer dr_x, RegisterUser bob, AddLecturer dr_x, ListLecturers,
       SubmitEvaluation \<lparr>user_index = ''0002'', lecturer_id = ''L0002'', rating = 5,
         comments = Some ''clear''\<rparr>]"
    by (simp add: session_def ensure_files_exist_def alice_def bob_def dr_x_def
      register_user_def add_lecturer_def evaluate_lecturer_def list_lecturers_def
      generate_user_index_def generate_lecturer_id_def fmt_04d_1 fmt_04d_2 Let_def)
  have counts: "length (filter is_RegisterUser (successful session ensure_files_exist)) = 2"
    "length (filter is_AddLecturer (successful session ensure_files_exist)) = 2"
    by (simp_all add: succ)
  have vals: "map fmt_04d [1..<Suc 2] = [''0001'', ''0002'']"
    "map (\<lambda>k. CHR ''L'' # fmt_04d k) [1..<Suc 2] = [''L0001'', ''L0002'']"
    by code_simp+
  note inst = C2_sequential_identifiers [of ensure_files_exist session]
  show ?thesis
    unfolding counts vals
    using no_users no_lecturers inst [unfolded counts vals] by blast
qed

section \<open>Round trip\<close>

text \<open>
  Claim C8. A lecturer added by \<^verbatim>\<open>add_lecturer\<close> appears in what
  \<^verbatim>\<open>list_lecturers\<close> returns after any later requests, with the id of the
  response and the name and department of the request, after every lecturer listed
  before the addition and before every lecturer added later. An evaluation accepted by
  \<^verbatim>\<open>evaluate_lecturer\<close> appears in what \<^verbatim>\<open>get_evaluations\<close> returns after
  any later requests, with the four fields of the request, after every evaluation
  listed before and before every later one.
\<close>

theorem C8_round_trip:
  "(\<exists>lid before ys.
      fst (add_lecturer lec fs) =
        Inr [(''lecturer_id'', lid), (''message'', ''Lecturer added successfully'')] \<and>
      fst (list_lecturers fs) = Inr before \<and>
      fst (list_lecturers (run rs (snd (add_lecturer lec fs)))) =
        Inr (before @
          [\<lparr>l_id = lid, l_name = lc_name lec, l_department = lc_department lec\<rparr>] @ ys)) \<and>
   (\<not> isl (fst (evaluate_lecturer ev fs)) \<longrightarrow>
      (\<exists>before ys.
         fst (get_evaluations fs) = Inr before \<and>
         fst (get_evaluations (run rs (snd (evaluate_lecturer ev fs)))) =
           Inr (before @
             [\<lparr>e_user_index = user_index ev, e_lecturer_id = lecturer_id ev,
               e_rating = rating ev, e_comments = comments ev\<rparr>] @ ys)))"
proof (rule conjI)
  let ?fs' = "snd (add_lecturer lec fs)"
  have "LECTURERS_FILE ?fs' = LECTURERS_FILE fs @
      [\<lparr>l_id = generate_lecturer_id fs, l_name = lc_name lec, l_department = lc_department lec\<rparr>]"
    by (simp add: add_lecturer_def Let_def)
  with lecturers_run [of rs ?fs'] have "\<exists>ys. LECTURERS_FILE (run rs ?fs') = LECTURERS_FILE fs @
      [\<lparr>l_id = generate_lecturer_id fs, l_name = lc_name lec, l_department = lc_department lec\<rparr>] @ ys"
    by simp
  then show "\<exists>lid before ys.
      fst (add_lecturer lec fs) =
        Inr [(''lecturer_id'', lid), (''message'', ''Lecturer added successfully'')] \<and>
      fst (list_lecturers fs) = Inr before \<and>
      fst (list_lecturers (run rs ?fs')) =
        Inr (before @
          [\<lparr>l_id = lid, l_name = lc_name lec, l_department = lc_department lec\<rparr>] @ ys)"
    by (simp add: list_lecturers_def add_lecturer_def Let_def)
next
  let ?fs' = "snd (evaluate_lecturer ev fs)"
  show "\<not> isl (fst (evaluate_lecturer ev fs)) \<longrightarrow>
      (\<exists>before ys.
         fst (get_evaluations fs) = Inr before \<and>
         fst (get_evaluations (run rs ?fs')) =
           Inr (before @
             [\<lparr>e_user_index = user_index ev, e_lecturer_id = lecturer_id ev,
               e_rating = rating ev, e_comments = comments ev\<rparr>] @ ys))"
  proof
    assume "\<not> isl (fst (evaluate_lecturer ev fs))"
    then have "EVALUATIONS_FILE ?fs' = EVALUATIONS_FILE fs @
        [\<lparr>e_user_index = user_index ev, e_lecturer_id = lecturer_id ev,
          e_rating = rating ev, e_comments = comments ev\<rparr>]"
      by (simp add: evaluate_lecturer_def Let_def split: if_splits)
    with evaluations_run [of rs ?fs'] show "\<exists>before ys.
         fst (get_evaluations fs) = Inr before \<and>
         fst (get_evaluations (run rs ?fs')) =
           Inr (before @
             [\<lparr>e_user_index = user_index ev, e_lecturer_id = lecturer_id ev,
               e_rating = rating ev, e_comments = comments ev\<rparr>] @ ys)"
      by (auto simp add: get_evaluations_def)
  qed
qed

theorem C8_round_trip_witness:
  "\<not> isl (fst (evaluate_lecturer
      \<lparr>user_index = ''0001'', lecturer_id = ''L0001'', rating = 5, comments = Some ''great''\<rparr>
      scenario)) \<and>
   (\<exists>lid before ys.
      fst (add_lecturer \<lparr>lc_name = ''Dr. Y'', lc_department = ''Maths''\<rparr> scenario) =
        Inr [(''lecturer_id'', lid), (''message'', ''Lecturer added successfully'')] \<and>
      fst (list_lecturers scenario) = Inr before \<and>
      fst (list_lecturers (run [AddLecturer dr_x, ListEvaluations]
        (snd (add_lecturer \<lparr>lc_name = ''Dr. Y'', lc_department = ''Maths''\<rparr> scenario)))) =
        Inr (before @
          [\<lparr>l_id = lid, l_name = ''Dr. Y'', l_department = ''Maths''\<rparr>] @ ys)) \<and>
   (\<exists>before ys.
      fst (get_evaluations scenario) = Inr before \<and>
      fst (get_evaluations (run [AddLecturer dr_x, ListEvaluations]
        (snd (evaluate_lecturer
          \<lparr>user_index = ''0001'', lecturer_id = ''L0001'', rating = 5, comments = Some ''great''\<rparr>
          scenario)))) =
        Inr (before @
          [\<lparr>e_user_index = ''0001'', e_lecturer_id = ''L0001'', e_rating = 5,
            e_comments = Some ''great''\<rparr>] @ ys))"
proof -
  have accepted: "\<not> isl (fst (evaluate_lecturer
      \<lparr>user_index = ''0001'', lecturer_id = ''L0001'', rating = 5, comments = Some ''great''\<rparr>
      scenario))"
    by (simp add: evaluate_lecturer_def scenario_files)
  show ?thesis
    using accepted
      C8_round_trip [of "\<lparr>lc_name = ''Dr. Y'', lc_department = ''Maths''\<rparr>" scenario
        "[AddLecturer dr_x, ListEvaluations]"
        "\<lparr>user_index = ''0001'', lecturer_id = ''L0001'', rating = 5, comments = Some ''great''\<rparr>"]
    by simp
qed

end
